theory Spec2Isabelle
  imports Complex_Main "HOL-Library.Log_Nat"
begin

section \<open>JavaScript numbers\<close>

text \<open>
  The elements of a \<^verbatim>\<open>Float64Array\<close>, the indices handed to \<^verbatim>\<open>get\<close> and the
  arguments of \<^verbatim>\<open>range\<close> are values of the Number type of the language: the binary64
  numbers, two zeros, two infinities and one NaN. A finite non-zero value is kept as the
  real number it denotes; \<open>Fin 0\<close> is the positive zero.
\<close>

datatype number = Fin real | NegZero | PosInfinity | NegInfinity | NaN

text \<open>Rounding to the nearest integer, a tie going to the even neighbour.\<close>

definition round_half_even :: "real \<Rightarrow> int" where
  "round_half_even r =
     (let f = \<lfloor>r\<rfloor>; d = r - of_int f
      in if d < 1 / 2 then f else if 1 / 2 < d then f + 1 else if even f then f else f + 1)"

text \<open>
  The binary exponent of a non-zero real, \<open>\<lfloor>log\<^sub>2 \<bar>x\<bar>\<rfloor>\<close>, from the bit length of an
  integer so that it can be computed.
\<close>

definition exponent2 :: "real \<Rightarrow> int" where
  "exponent2 x = (if 1 \<le> \<bar>x\<bar> then bitlen \<lfloor>\<bar>x\<bar>\<rfloor> - 1 else - bitlen (\<lceil>1 / \<bar>x\<bar>\<rceil> - 1))"

definition pow2 :: "int \<Rightarrow> real" where
  "pow2 k = (if 0 \<le> k then 2 ^ nat k else 1 / 2 ^ nat (- k))"

text \<open>
  The value an arithmetic operation delivers for the exact result \<open>x\<close>: the nearest
  binary64 number (53 significant bits, least exponent \<open>-1074\<close>), ties to even; a result
  of magnitude \<open>2\<^sup>1\<^sup>0\<^sup>2\<^sup>4\<close> or more is an infinity, and a result that rounds to nothing
  is a zero with the sign of \<open>x\<close>.
\<close>

definition fl :: "real \<Rightarrow> number" where
  "fl x =
     (if x = 0 then Fin 0
      else let q = max (exponent2 x - 52) (- 1074);
               m = round_half_even (x / pow2 q);
               y = of_int m * pow2 q
           in if m = 0 then (if x < 0 then NegZero else Fin 0)
              else if pow2 1024 \<le> \<bar>y\<bar> then (if x < 0 then NegInfinity else PosInfinity)
              else Fin y)"

text \<open>A value of the model is a binary64 number when rounding leaves it alone.\<close>

fun is_double :: "number \<Rightarrow> bool" where
  "is_double (Fin x) = (fl x = Fin x)"
| "is_double _ = True"

fun is_nan :: "number \<Rightarrow> bool" where
  "is_nan NaN = True"
| "is_nan _ = False"

fun is_inf :: "number \<Rightarrow> bool" where
  "is_inf PosInfinity = True"
| "is_inf NegInfinity = True"
| "is_inf _ = False"

fun is_zero :: "number \<Rightarrow> bool" where
  "is_zero (Fin x) = (x = 0)"
| "is_zero NegZero = True"
| "is_zero _ = False"

fun sign_bit :: "number \<Rightarrow> bool" where
  "sign_bit (Fin x) = (x < 0)"
| "sign_bit NegZero = True"
| "sign_bit NegInfinity = True"
| "sign_bit _ = False"

fun val :: "number \<Rightarrow> real" where
  "val (Fin x) = x"
| "val _ = 0"

definition zero_of :: "bool \<Rightarrow> number" where
  "zero_of neg = (if neg then NegZero else Fin 0)"

definition inf_of :: "bool \<Rightarrow> number" where
  "inf_of neg = (if neg then NegInfinity else PosInfinity)"

text \<open>Unary minus.\<close>

fun num_neg :: "number \<Rightarrow> number" where
  "num_neg (Fin x) = (if x = 0 then NegZero else Fin (- x))"
| "num_neg NegZero = Fin 0"
| "num_neg PosInfinity = NegInfinity"
| "num_neg NegInfinity = PosInfinity"
| "num_neg NaN = NaN"

text \<open>\<^verbatim>\<open>a + b\<close>: an exact zero sum of finite values is the positive zero.\<close>

fun num_add :: "number \<Rightarrow> number \<Rightarrow> number" where
  "num_add NaN _ = NaN"
| "num_add _ NaN = NaN"
| "num_add PosInfinity NegInfinity = NaN"
| "num_add NegInfinity PosInfinity = NaN"
| "num_add PosInfinity _ = PosInfinity"
| "num_add _ PosInfinity = PosInfinity"
| "num_add NegInfinity _ = NegInfinity"
| "num_add _ NegInfinity = NegInfinity"
| "num_add NegZero NegZero = NegZero"
| "num_add NegZero (Fin y) = Fin y"
| "num_add (Fin x) NegZero = Fin x"
| "num_add (Fin x) (Fin y) = fl (x + y)"

text \<open>\<^verbatim>\<open>a - b\<close> is \<^verbatim>\<open>a + (-b)\<close>.\<close>

definition num_sub :: "number \<Rightarrow> number \<Rightarrow> number" where
  "num_sub a b = num_add a (num_neg b)"

text \<open>\<^verbatim>\<open>a * b\<close>: the sign of the result is the exclusive or of the signs.\<close>

definition num_mul :: "number \<Rightarrow> number \<Rightarrow> number" where
  "num_mul a b =
     (if is_nan a \<or> is_nan b then NaN
      else if is_inf a \<or> is_inf b
        then (if is_zero a \<or> is_zero b then NaN else inf_of (sign_bit a \<noteq> sign_bit b))
      else if is_zero a \<or> is_zero b then zero_of (sign_bit a \<noteq> sign_bit b)
      else fl (val a * val b))"

text \<open>\<^verbatim>\<open>a / b\<close>.\<close>

definition num_div :: "number \<Rightarrow> number \<Rightarrow> number" where
  "num_div a b =
     (if is_nan a \<or> is_nan b then NaN
      else if is_inf a then (if is_inf b then NaN else inf_of (sign_bit a \<noteq> sign_bit b))
      else if is_inf b then zero_of (sign_bit a \<noteq> sign_bit b)
      else if is_zero b then (if is_zero a then NaN else inf_of (sign_bit a \<noteq> sign_bit b))
      else if is_zero a then zero_of (sign_bit a \<noteq> sign_bit b)
      else fl (val a / val b))"

text \<open>\<^verbatim>\<open>Math.sqrt\<close> and \<^verbatim>\<open>Math.ceil\<close>.\<close>

fun Math_sqrt :: "number \<Rightarrow> number" where
  "Math_sqrt (Fin x) = (if x < 0 then NaN else fl (sqrt x))"
| "Math_sqrt NegZero = NegZero"
| "Math_sqrt PosInfinity = PosInfinity"
| "Math_sqrt NegInfinity = NaN"
| "Math_sqrt NaN = NaN"

fun Math_ceil :: "number \<Rightarrow> number" where
  "Math_ceil (Fin x) = (if \<lceil>x\<rceil> = 0 \<and> x < 0 then NegZero else Fin (of_int \<lceil>x\<rceil>))"
| "Math_ceil n = n"

text \<open>\<^verbatim>\<open>a < b\<close> (and \<^verbatim>\<open>a > b\<close> is \<^verbatim>\<open>b < a\<close>): false as soon as one side is NaN.\<close>

fun num_lt :: "number \<Rightarrow> number \<Rightarrow> bool" where
  "num_lt NaN _ = False"
| "num_lt _ NaN = False"
| "num_lt _ NegInfinity = False"
| "num_lt NegInfinity _ = True"
| "num_lt PosInfinity _ = False"
| "num_lt _ PosInfinity = True"
| "num_lt a b = (val a < val b)"

definition num_gt :: "number \<Rightarrow> number \<Rightarrow> bool" where
  "num_gt a b = num_lt b a"

text \<open>\<^verbatim>\<open>a === b\<close> on numbers: NaN equals nothing, the two zeros are equal.\<close>

fun num_eq :: "number \<Rightarrow> number \<Rightarrow> bool" where
  "num_eq NaN _ = False"
| "num_eq _ NaN = False"
| "num_eq PosInfinity b = (b = PosInfinity)"
| "num_eq NegInfinity b = (b = NegInfinity)"
| "num_eq a PosInfinity = False"
| "num_eq a NegInfinity = False"
| "num_eq a b = (val a = val b)"

text \<open>The global \<^verbatim>\<open>isFinite\<close>.\<close>

fun isFinite :: "number \<Rightarrow> bool" where
  "isFinite (Fin _) = True"
| "isFinite NegZero = True"
| "isFinite _ = False"

text \<open>
  A value read from a buffer, or an optional argument, is a number or \<^verbatim>\<open>undefined\<close>
  (\<open>None\<close>). \<open>ToNumber\<close> is the conversion arithmetic applies to it, \<open>ToBoolean\<close> the one
  \<^verbatim>\<open>!v\<close> applies, and \<open>strict_eq\<close> is \<^verbatim>\<open>===\<close>.
\<close>

type_synonym jsval = "number option"

fun ToNumber :: "jsval \<Rightarrow> number" where
  "ToNumber None = NaN"
| "ToNumber (Some n) = n"

fun ToBoolean :: "jsval \<Rightarrow> bool" where
  "ToBoolean None = False"
| "ToBoolean (Some n) = (\<not> is_nan n \<and> \<not> is_zero n)"

fun strict_eq :: "jsval \<Rightarrow> jsval \<Rightarrow> bool" where
  "strict_eq None None = True"
| "strict_eq (Some a) (Some b) = num_eq a b"
| "strict_eq _ _ = False"

section \<open>Typed arrays\<close>

text \<open>
  A typed array is a fixed-length sequence of numbers. The element kinds other than the
  default one are declared in \<^verbatim>\<open>./types\<close>, which is not among the sources: the model
  has the default kind, \<^verbatim>\<open>Float64Array\<close>, whose elements are stored as they are.
  A variable that may hold a typed array or \<^verbatim>\<open>undefined\<close> is an option.
\<close>

datatype TypedArrayConstructor = Float64Array

datatype error = Error string | TypeError | RangeError

text \<open>
  \<^verbatim>\<open>new type(n)\<close> starts filled with zeros. For a number \<open>n\<close> that is not a length: NaN
  counts as 0, a fraction is cut off, a negative or infinite length is a \<^verbatim>\<open>RangeError\<close>.
  The limit an engine puts on the size of an array is not modelled.
\<close>

definition new_array :: "TypedArrayConstructor \<Rightarrow> nat \<Rightarrow> number list" where
  "new_array t n = replicate n (Fin 0)"

fun new_length :: "TypedArrayConstructor \<Rightarrow> number \<Rightarrow> error + number list" where
  "new_length t (Fin x) = (if x \<le> - 1 then Inl RangeError else Inr (new_array t (nat \<lfloor>x\<rfloor>)))"
| "new_length t NegZero = Inr []"
| "new_length t NaN = Inr []"
| "new_length t _ = Inl RangeError"

text \<open>
  \<^verbatim>\<open>new type(src)\<close> for a typed array or an array \<open>src\<close> copies it; for \<^verbatim>\<open>undefined\<close>
  it is the empty array.
\<close>

fun new_copy :: "TypedArrayConstructor \<Rightarrow> number list option \<Rightarrow> number list" where
  "new_copy t None = []"
| "new_copy t (Some xs) = xs"

text \<open>
  \<^verbatim>\<open>target.set(src, offset)\<close>: a \<^verbatim>\<open>TypeError\<close> when \<open>src\<close> is \<^verbatim>\<open>undefined\<close>, a
  \<^verbatim>\<open>RangeError\<close> when \<open>src\<close> does not fit.
\<close>

definition typed_set :: "number list \<Rightarrow> number list option \<Rightarrow> nat \<Rightarrow> error + number list" where
  "typed_set target src offset =
     (case src of
        None \<Rightarrow> Inl TypeError
      | Some s \<Rightarrow>
          if length target < offset + length s then Inl RangeError
          else Inr (take offset target @ s @ drop (offset + length s) target))"

text \<open>
  \<^verbatim>\<open>d[i]\<close> for a loop counter \<open>i\<close>: the element, or \<^verbatim>\<open>undefined\<close> past the end. A write
  past the end does nothing, which is what \<open>d[i := v]\<close> does.
\<close>

definition elem_at :: "number list \<Rightarrow> nat \<Rightarrow> jsval" where
  "elem_at d i = (if i < length d then Some (d ! i) else None)"

text \<open>
  \<^verbatim>\<open>d[index]\<close> for an arbitrary number: only an integer from 0 to the last position
  names an element (the negative zero names position 0).
\<close>

definition is_index :: "number list \<Rightarrow> number \<Rightarrow> bool" where
  "is_index d index =
     (isFinite index \<and> 0 \<le> val index \<and> val index = of_int \<lfloor>val index\<rfloor>
        \<and> nat \<lfloor>val index\<rfloor> < length d)"

definition at_number :: "number list \<Rightarrow> number \<Rightarrow> jsval" where
  "at_number d index = (if is_index d index then Some (d ! nat \<lfloor>val index\<rfloor>) else None)"


section \<open>The acceleration backend\<close>

text \<open>
  The module binds \<^verbatim>\<open>axpy\<close>, \<^verbatim>\<open>scal\<close>, \<^verbatim>\<open>dot\<close>, \<^verbatim>\<open>nrm2\<close> and \<^verbatim>\<open>idamax\<close> to
  the functions of the package \<^verbatim>\<open>nblas\<close> when it loads, and leaves them \<^verbatim>\<open>undefined\<close>
  when it does not. The package is a parameter of the model: a record of functions, each
  of which throws or returns (for \<^verbatim>\<open>axpy\<close> and \<^verbatim>\<open>scal\<close>, the new content of the array
  they write). \<open>None\<close> is the module without the package, where a call is the
  \<^verbatim>\<open>TypeError\<close> of calling \<^verbatim>\<open>undefined\<close>. The field \<open>ddot\<close> is the module's
  \<^verbatim>\<open>dot\<close>, renamed apart from the method. Only \<^verbatim>\<open>max\<close> calls \<^verbatim>\<open>idamax\<close>; both are
  left out.
\<close>

record nblas =
  axpy :: "number list option \<Rightarrow> number list option \<Rightarrow> number option \<Rightarrow> error + number list"
  scal :: "number list option \<Rightarrow> number \<Rightarrow> error + number list"
  ddot :: "number list option \<Rightarrow> number list option \<Rightarrow> error + number"
  nrm2 :: "number list option \<Rightarrow> error + number"

definition call_axpy ::
  "nblas option \<Rightarrow> number list option \<Rightarrow> number list option \<Rightarrow> number option
     \<Rightarrow> error + number list" where
  "call_axpy nb x y alpha = (case nb of None \<Rightarrow> Inl TypeError | Some b \<Rightarrow> axpy b x y alpha)"

definition call_scal :: "nblas option \<Rightarrow> number list option \<Rightarrow> number \<Rightarrow> error + number list" where
  "call_scal nb x alpha = (case nb of None \<Rightarrow> Inl TypeError | Some b \<Rightarrow> scal b x alpha)"

definition call_dot ::
  "nblas option \<Rightarrow> number list option \<Rightarrow> number list option \<Rightarrow> error + number" where
  "call_dot nb x y = (case nb of None \<Rightarrow> Inl TypeError | Some b \<Rightarrow> ddot b x y)"

definition call_nrm2 :: "nblas option \<Rightarrow> number list option \<Rightarrow> error + number" where
  "call_nrm2 nb x = (case nb of None \<Rightarrow> Inl TypeError | Some b \<Rightarrow> nrm2 b x)"

section \<open>The class Vector\<close>

text \<open>
  An object of the class has the fields \<^verbatim>\<open>type\<close>, \<^verbatim>\<open>length\<close> and \<^verbatim>\<open>data\<close>; \<^verbatim>\<open>data\<close>
  stays \<^verbatim>\<open>undefined\<close> until a constructor branch or \<^verbatim>\<open>combine\<close> assigns it. A method
  takes the receiver \<open>this\<close> and returns it as the call leaves it. A length is the length
  of an array, a natural number below \<open>2\<^sup>5\<^sup>3\<close>, where \<^verbatim>\<open>l1 + l2\<close> and \<^verbatim>\<open>length - 1\<close> are
  exact.
\<close>

record Vector =
  type :: TypedArrayConstructor
  length_v :: nat
  data :: "number list option"

text \<open>
  The matrix the constructor accepts (any value with a \<^verbatim>\<open>shape\<close>), and the values the
  constructor tells apart, in the order of its tests; \<open>Other\<close> is \<^verbatim>\<open>undefined\<close> or any
  value no test accepts.
\<close>

record Matrix =
  matrix_type :: TypedArrayConstructor
  matrix_data :: "number list option"
  shape :: "nat \<times> nat"

datatype source =
    OfVector Vector
  | OfMatrix Matrix
  | OfArray "number list"
  | OfTypedArray TypedArrayConstructor "number list"
  | Other

text \<open>\<^verbatim>\<open>for (i = 0; i < n; i++) body\<close> over a state \<open>s\<close>.\<close>

definition for_upto :: "nat \<Rightarrow> (nat \<Rightarrow> 's \<Rightarrow> 's) \<Rightarrow> 's \<Rightarrow> 's" where
  "for_upto n body s = fold body [0..<n] s"

definition combine :: "Vector \<Rightarrow> Vector \<Rightarrow> error + Vector" where
  "combine this vector =
     (if length_v vector = 0 then Inr this
      else if length_v this = 0 then
        Inr (this\<lparr>data := Some (new_copy (type vector) (data vector)),
                  length_v := length_v vector,
                  type := type vector\<rparr>)
      else
        let l1 = length_v this; l2 = length_v vector;
            d1 = data this; d2 = data vector;
            data0 = new_array (type this) (l1 + l2)
        in case typed_set data0 d1 0 of
             Inl e \<Rightarrow> Inl e
           | Inr data1 \<Rightarrow>
               (case typed_set data1 d2 l1 of
                  Inl e \<Rightarrow> Inl e
                | Inr data2 \<Rightarrow> Inr (this\<lparr>data := Some data2, length_v := l1 + l2\<rparr>)))"

text \<open>
  The constructor. Its first branch calls \<^verbatim>\<open>combine\<close> on the new object, whose length
  is 0: there \<^verbatim>\<open>combine\<close> returns before the statements that can throw, so the
  constructor always returns.
\<close>

definition Vector_new :: "source \<Rightarrow> Vector" where
  "Vector_new src =
     (let this = \<lparr>type = Float64Array, length_v = 0, data = None\<rparr>
      in case src of
           OfVector v \<Rightarrow> (case combine this v of Inr this' \<Rightarrow> this' | Inl e \<Rightarrow> this)
         | OfMatrix m \<Rightarrow>
             this\<lparr>data := Some (new_copy (matrix_type m) (matrix_data m)),
                  length_v := fst (shape m) * snd (shape m),
                  type := matrix_type m\<rparr>
         | OfArray xs \<Rightarrow> this\<lparr>data := Some (new_copy (type this) (Some xs)), length_v := length xs\<rparr>
         | OfTypedArray t xs \<Rightarrow> this\<lparr>data := Some xs, length_v := length xs, type := t\<rparr>
         | Other \<Rightarrow> this)"

definition binOp :: "Vector \<Rightarrow> Vector \<Rightarrow> (jsval \<Rightarrow> jsval \<Rightarrow> nat \<Rightarrow> number) \<Rightarrow> error + Vector" where
  "binOp this vector op =
     (let l1 = length_v this; l2 = length_v vector
      in if l1 \<noteq> l2 then Inl (Error ''sizes do not match!'')
         else if l1 = 0 \<and> l2 = 0 then Inr this
         else case (data this, data vector) of
                (Some a, Some b) \<Rightarrow>
                  Inr (this\<lparr>data :=
                    Some (for_upto l1 (\<lambda>i d. d[i := op (elem_at d i) (elem_at b i) i]) a)\<rparr>)
              | _ \<Rightarrow> Inl TypeError)"

definition add :: "nblas option \<Rightarrow> Vector \<Rightarrow> Vector \<Rightarrow> error + Vector" where
  "add nb this vector =
     (case (if length_v this \<noteq> length_v vector then Inl (Error ''sizes do not match!'')
            else call_axpy nb (data vector) (data this) None) of
        Inr d \<Rightarrow> Inr (this\<lparr>data := Some d\<rparr>)
      | Inl err \<Rightarrow> binOp this vector (\<lambda>a b i. num_add (ToNumber a) (ToNumber b)))"

definition subtract :: "nblas option \<Rightarrow> Vector \<Rightarrow> Vector \<Rightarrow> error + Vector" where
  "subtract nb this vector =
     (case (if length_v this \<noteq> length_v vector then Inl (Error ''sizes do not match!'')
            else call_axpy nb (data vector) (data this) (Some (Fin (- 1)))) of
        Inr d \<Rightarrow> Inr (this\<lparr>data := Some d\<rparr>)
      | Inl err \<Rightarrow> binOp this vector (\<lambda>a b i. num_sub (ToNumber a) (ToNumber b)))"

text \<open>
  \<^verbatim>\<open>each\<close> hands the callback the element, the position and the array; what the callback
  does to the array is the array it returns.
\<close>

definition each :: "Vector \<Rightarrow> (jsval \<Rightarrow> nat \<Rightarrow> number list \<Rightarrow> number list) \<Rightarrow> error + Vector" where
  "each this callback =
     (case data this of
        None \<Rightarrow> if length_v this = 0 then Inr this else Inl TypeError
      | Some d0 \<Rightarrow>
          Inr (this\<lparr>data :=
            Some (for_upto (length_v this) (\<lambda>i d. callback (elem_at d i) i d) d0)\<rparr>))"

definition scale :: "nblas option \<Rightarrow> Vector \<Rightarrow> number \<Rightarrow> error + Vector" where
  "scale nb this scalar =
     (case call_scal nb (data this) scalar of
        Inr d \<Rightarrow> Inr (this\<lparr>data := Some d\<rparr>)
      | Inl err \<Rightarrow>
          each this (\<lambda>_ i d. d[i := num_mul (ToNumber (elem_at d i)) scalar]))"

definition dot :: "nblas option \<Rightarrow> Vector \<Rightarrow> Vector \<Rightarrow> error + number" where
  "dot nb this vector =
     (if length_v this \<noteq> length_v vector then Inl (Error ''sizes do not match'')
      else case call_dot nb (data this) (data vector) of
             Inr r \<Rightarrow> Inr r
           | Inl err \<Rightarrow>
               (let l = length_v this
                in if l = 0 then Inr (Fin 0)
                   else case (data this, data vector) of
                          (Some a, Some b) \<Rightarrow>
                            Inr (for_upto l
                              (\<lambda>i result. num_add result
                                 (num_mul (ToNumber (elem_at a i)) (ToNumber (elem_at b i))))
                              (Fin 0))
                        | _ \<Rightarrow> Inl TypeError))"

definition magnitude :: "nblas option \<Rightarrow> Vector \<Rightarrow> error + number" where
  "magnitude nb this =
     (if length_v this = 0 then Inr (Fin 0)
      else case call_nrm2 nb (data this) of
             Inr r \<Rightarrow> Inr r
           | Inl err \<Rightarrow>
               (case data this of
                  Some d \<Rightarrow>
                    Inr (Math_sqrt (for_upto (length_v this)
                      (\<lambda>i result. num_add result
                         (num_mul (ToNumber (elem_at d i)) (ToNumber (elem_at d i))))
                      (Fin 0)))
                | None \<Rightarrow> Inl TypeError))"

text \<open>
  The loop of \<^verbatim>\<open>equals\<close>: the position at which it stops. It reads the arrays only
  while \<open>i\<close> is below the length.
\<close>

function equals_loop :: "Vector \<Rightarrow> Vector \<Rightarrow> nat \<Rightarrow> error + nat" where
  "equals_loop this vector i =
     (if i < length_v this then
        (case (data this, data vector) of
           (Some a, Some b) \<Rightarrow>
             if strict_eq (elem_at a i) (elem_at b i) then equals_loop this vector (Suc i)
             else Inr i
         | _ \<Rightarrow> Inl TypeError)
      else Inr i)"
  by pat_completeness auto
termination
  by (relation "measure (\<lambda>(this, vector, i). length_v this - i)") auto

declare equals_loop.simps [simp del]

definition equals :: "Vector \<Rightarrow> Vector \<Rightarrow> error + bool" where
  "equals this vector =
     (if length_v this \<noteq> length_v vector then Inr False
      else case equals_loop this vector 0 of
             Inl e \<Rightarrow> Inl e
           | Inr i \<Rightarrow> Inr (i = length_v this))"

definition check :: "Vector \<Rightarrow> number \<Rightarrow> error + unit" where
  "check this index =
     (if \<not> isFinite index \<or> num_lt index (Fin 0)
          \<or> num_gt index (Fin (real (length_v this) - 1))
      then Inl (Error ''index out of bounds'')
      else Inr ())"

definition get :: "Vector \<Rightarrow> number \<Rightarrow> error + jsval" where
  "get this index =
     (case check this index of
        Inl e \<Rightarrow> Inl e
      | Inr _ \<Rightarrow>
          (case data this of
             None \<Rightarrow> Inl TypeError
           | Some d \<Rightarrow> Inr (at_number d index)))"


text \<open>The getters \<^verbatim>\<open>x\<close>, \<^verbatim>\<open>y\<close>, \<^verbatim>\<open>z\<close> and \<^verbatim>\<open>w\<close>.\<close>

definition get_x :: "Vector \<Rightarrow> error + jsval" where
  "get_x this = get this (Fin 0)"

definition get_y :: "Vector \<Rightarrow> error + jsval" where
  "get_y this = get this (Fin 1)"

definition get_z :: "Vector \<Rightarrow> error + jsval" where
  "get_z this = get this (Fin 2)"

definition get_w :: "Vector \<Rightarrow> error + jsval" where
  "get_w this = get this (Fin 3)"


text \<open>
  \<^verbatim>\<open>reduce\<close>: \<open>initialValue\<close> is \<open>None\<close> when the caller passes none. The loop starts
  at 0 from the initial value, or at 1 from the first element.
\<close>

definition reduce ::
  "Vector \<Rightarrow> (jsval \<Rightarrow> jsval \<Rightarrow> nat \<Rightarrow> number list \<Rightarrow> jsval) \<Rightarrow> jsval \<Rightarrow> error + jsval" where
  "reduce this callback initialValue =
     (let l = length_v this
      in if l = 0 \<and> \<not> ToBoolean initialValue
         then Inl (Error ''Reduce of empty matrix with no initial value.'')
         else case data this of
                None \<Rightarrow>
                  (case initialValue of
                     Some v \<Rightarrow> if l = 0 then Inr (Some v) else Inl TypeError
                   | None \<Rightarrow> Inl TypeError)
              | Some d \<Rightarrow>
                  (let (i0, v0) = (case initialValue of
                                     Some v \<Rightarrow> (0, Some v)
                                   | None \<Rightarrow> (1, elem_at d 0))
                   in Inr (fold (\<lambda>i v. callback v (elem_at d i) i d) [i0..<l] v0)))"

text \<open>
  The generators. \<^verbatim>\<open>fill\<close> takes a count (an integer here), a value or a function of
  the position, and an element kind, the last two optional.
\<close>

datatype fill_value = Value number | Function "nat \<Rightarrow> number"

definition Vector_fill ::
  "int \<Rightarrow> fill_value option \<Rightarrow> TypedArrayConstructor option \<Rightarrow> error + Vector" where
  "Vector_fill count v t =
     (if count < 0 then Inl (Error ''invalid size'')
      else if count = 0 then Inr (Vector_new Other)
      else
        let v' = (case v of None \<Rightarrow> Value (Fin 0) | Some u \<Rightarrow> u);
            t' = (case t of None \<Rightarrow> Float64Array | Some u \<Rightarrow> u);
            data0 = new_array t' (nat count);
            data1 = (case v' of
                       Function f \<Rightarrow> for_upto (nat count) (\<lambda>i d. d[i := f i]) data0
                     | Value u \<Rightarrow> for_upto (nat count) (\<lambda>i d. d[i := u]) data0)
        in Inr (Vector_new (OfTypedArray t' data1)))"

definition Vector_zeros :: "int \<Rightarrow> TypedArrayConstructor option \<Rightarrow> error + Vector" where
  "Vector_zeros count t = Vector_fill count (Some (Value (Fin 0))) t"

text \<open>
  \<^verbatim>\<open>range\<close>: the numbers handed over, and the element kind when one follows them. The
  loop need not end (a step of 0, or one too small to change \<open>i\<close>), so it runs on fuel:
  \<open>None\<close> is the loop still running when the fuel is spent.
\<close>

fun range_loop ::
  "nat \<Rightarrow> bool \<Rightarrow> number \<Rightarrow> number \<Rightarrow> number \<Rightarrow> number \<Rightarrow> nat \<Rightarrow> number list
     \<Rightarrow> number list option" where
  "range_loop 0 backwards start step end' i j d = (if num_lt i end' then None else Some d)"
| "range_loop (Suc fuel) backwards start step end' i j d =
     (if num_lt i end'
      then range_loop fuel backwards start step end' (num_add i step) (Suc j)
             (d[j := (if backwards then num_add (num_sub end' i) start else i)])
      else Some d)"

definition Vector_range ::
  "nat \<Rightarrow> number list \<Rightarrow> TypedArrayConstructor option \<Rightarrow> (error + Vector) option" where
  "Vector_range fuel args t =
     (let t' = (case t of None \<Rightarrow> Float64Array | Some u \<Rightarrow> u)
      in case (case args of
                 [a, b] \<Rightarrow> Some (a, Fin 1, b)
               | [a, s, b] \<Rightarrow> Some (a, s, b)
               | _ \<Rightarrow> None) of
           None \<Rightarrow> Some (Inl (Error ''invalid range''))
         | Some (start0, step, end0) \<Rightarrow>
             (let backwards = num_lt (num_sub end0 start0) (Fin 0);
                  end' = (if backwards then start0 else end0);
                  start = (if backwards then end0 else start0)
              in if num_gt step (num_sub end' start) then Some (Inl (Error ''invalid range''))
                 else case new_length t' (Math_ceil (num_div (num_sub end' start) step)) of
                        Inl e \<Rightarrow> Some (Inl e)
                      | Inr data0 \<Rightarrow>
                          (case range_loop fuel backwards start step end' start 0 data0 of
                             None \<Rightarrow> None
                           | Some data1 \<Rightarrow> Some (Inr (Vector_new (OfTypedArray t' data1))))))"






section \<open>The backend the specification describes\<close>

text \<open>
  The package \<^verbatim>\<open>nblas\<close> is not among the sources. Section 4.2 of the specification
  gives the contract of its primitives; the four definitions below follow its words, with
  the sums taken from the left in the arithmetic of numbers.
\<close>

text \<open>
  Modelled from the spec: \<^verbatim>\<open>scaledAdd(dst, src, factor=1)\<close>, standing for the absent
  \<^verbatim>\<open>nblas.axpy\<close>: for all i, \<^verbatim>\<open>dst[i] += factor * src[i]\<close>.
\<close>

definition scaledAdd :: "number list \<Rightarrow> number list \<Rightarrow> number \<Rightarrow> number list" where
  "scaledAdd dst src factor = map2 (\<lambda>d s. num_add d (num_mul factor s)) dst src"

text \<open>
  Modelled from the spec: \<^verbatim>\<open>scaleInPlace(buf, scalar)\<close>, standing for the absent
  \<^verbatim>\<open>nblas.scal\<close>: for all i, \<^verbatim>\<open>buf[i] *= scalar\<close>.
\<close>

definition scaleInPlace :: "number list \<Rightarrow> number \<Rightarrow> number list" where
  "scaleInPlace buf scalar = map (\<lambda>b. num_mul b scalar) buf"

text \<open>
  Modelled from the spec: \<^verbatim>\<open>dot(a, b)\<close>, standing for the absent \<^verbatim>\<open>nblas.dot\<close>: returns
  the sum of the \<^verbatim>\<open>a[i]*b[i]\<close>.
\<close>

definition dot_sum :: "number list \<Rightarrow> number list \<Rightarrow> number" where
  "dot_sum a b = foldl num_add (Fin 0) (map2 num_mul a b)"

text \<open>
  Modelled from the spec: \<^verbatim>\<open>norm2(buf)\<close>, standing for the absent \<^verbatim>\<open>nblas.nrm2\<close>:
  returns the square root of the sum of the \<^verbatim>\<open>buf[i]^2\<close>; defined as 0 for a zero-length
  buffer.
\<close>

definition norm2 :: "number list \<Rightarrow> number" where
  "norm2 buf =
     (if buf = [] then Fin 0
      else Math_sqrt (foldl num_add (Fin 0) (map (\<lambda>b. num_mul b b) buf)))"

text \<open>
  Modelled from the spec: the package as a whole. The first two primitives require equal
  lengths; a call with \<^verbatim>\<open>undefined\<close> for an array, or with arrays of different
  lengths, throws. \<^verbatim>\<open>axpy(x, y, alpha)\<close> is \<^verbatim>\<open>scaledAdd(y, x, alpha)\<close>.
\<close>

definition nblas_spec :: nblas where
  "nblas_spec =
     \<lparr>axpy = (\<lambda>src dst factor.
         case (src, dst) of
           (Some s, Some d) \<Rightarrow>
             if length s = length d
             then Inr (scaledAdd d s (case factor of None \<Rightarrow> Fin 1 | Some f \<Rightarrow> f))
             else Inl RangeError
         | _ \<Rightarrow> Inl TypeError),
      scal = (\<lambda>buf scalar.
         case buf of Some b \<Rightarrow> Inr (scaleInPlace b scalar) | None \<Rightarrow> Inl TypeError),
      ddot = (\<lambda>a b.
         case (a, b) of
           (Some u, Some v) \<Rightarrow> if length u = length v then Inr (dot_sum u v) else Inl RangeError
         | _ \<Rightarrow> Inl TypeError),
      nrm2 = (\<lambda>buf. case buf of Some b \<Rightarrow> Inr (norm2 b) | None \<Rightarrow> Inl TypeError)\<rparr>"

section \<open>Well-formed vectors\<close>

text \<open>
  The length field agrees with the array: it is the number of elements of the array, and
  0 when there is no array.
\<close>

definition consistent :: "Vector \<Rightarrow> bool" where
  "consistent v = (case data v of None \<Rightarrow> length_v v = 0 | Some d \<Rightarrow> length_v v = length d)"



text \<open>The elements of a vector, none when it has no array.\<close>

definition elements :: "Vector \<Rightarrow> number list" where
  "elements v = (case data v of None \<Rightarrow> [] | Some d \<Rightarrow> d)"

text \<open>A backend that writes into the arrays it is given leaves their lengths alone.\<close>

definition in_place :: "nblas option \<Rightarrow> bool" where
  "in_place nb =
     (case nb of
        None \<Rightarrow> True
      | Some b \<Rightarrow>
          (\<forall>src dst factor r. axpy b src (Some dst) factor = Inr r \<longrightarrow> length r = length dst)
          \<and> (\<forall>src factor r. axpy b src None factor \<noteq> Inr r)
          \<and> (\<forall>buf scalar r. scal b (Some buf) scalar = Inr r \<longrightarrow> length r = length buf)
          \<and> (\<forall>scalar r. scal b None scalar \<noteq> Inr r))"

section \<open>Comparisons the statements use\<close>

text \<open>\<^verbatim>\<open>a >= b\<close>: false when a side is NaN, otherwise the negation of \<^verbatim>\<open>a < b\<close>.\<close>

definition num_ge :: "number \<Rightarrow> number \<Rightarrow> bool" where
  "num_ge a b = (\<not> is_nan a \<and> \<not> is_nan b \<and> \<not> num_lt a b)"



section \<open>Facts about rounding\<close>

lemma round_half_even_of_int: "round_half_even (of_int k) = k"
  by (simp add: round_half_even_def)

lemma round_half_even_minus: "round_half_even (- r) = - round_half_even r"
proof (cases "r = of_int \<lfloor>r\<rfloor>")
  case True
  then obtain k where "r = of_int k" by metis
  then show ?thesis using round_half_even_of_int[of k] round_half_even_of_int[of "-k"] by simp
next
  case False
  then have fl: "\<lfloor>- r\<rfloor> = - \<lfloor>r\<rfloor> - 1"
    by (metis ceiling_altdef ceiling_def minus_diff_eq uminus_add_conv_diff minus_minus)
  have d: "0 < r - of_int \<lfloor>r\<rfloor>" "r - of_int \<lfloor>r\<rfloor> < 1"
    using False by (auto simp: less_le) linarith+
  show ?thesis
    using d unfolding round_half_even_def Let_def fl
    by (auto simp: field_simps)
qed

lemma bitlen_numeral [simp]: "bitlen (numeral n) = bitlen (numeral n div 2) + 1"
  by (subst compute_bitlen) simp

lemma bitlen_one [simp]: "bitlen 1 = 1"
  by (subst compute_bitlen) simp

lemma fl_0 [simp]: "fl 0 = Fin 0"
  by (simp add: fl_def)

lemmas fl_eval = fl_def exponent2_def pow2_def round_half_even_def Let_def

lemma exponent2_minus: "exponent2 (- x) = exponent2 x"
  by (simp add: exponent2_def)

lemma pow2_pos: "0 < pow2 q"
  by (simp add: pow2_def)

text \<open>\<open>exponent2\<close> is the binary exponent: \<open>2\<^sup>e \<le> \<bar>x\<bar> < 2\<^sup>e\<^sup>+\<^sup>1\<close>.\<close>

lemma exponent2_bounds:
  assumes "x \<noteq> 0"
  shows "pow2 (exponent2 x) \<le> \<bar>x\<bar> \<and> \<bar>x\<bar> < pow2 (exponent2 x + 1)"
proof (cases "1 \<le> \<bar>x\<bar>")
  case True
  define n where "n = \<lfloor>\<bar>x\<bar>\<rfloor>"
  have n1: "1 \<le> n" using True by (simp add: n_def)
  define e where "e = bitlen n - 1"
  have ex: "exponent2 x = e" using True by (simp add: exponent2_def e_def n_def)
  have b: "2 ^ nat e \<le> n" "n < 2 ^ nat (e + 1)"
    using bitlen_bounds[of n] n1 by (simp_all add: e_def)
  have e0: "0 \<le> e" using n1 bitlen_eq_zero_iff[of n] bitlen_nonneg[of n] by (simp add: e_def)
  have "real_of_int (2 ^ nat e) \<le> real_of_int n" using b(1) by (simp only: of_int_le_iff)
  then have "(2::real) ^ nat e \<le> real_of_int n" by simp
  moreover have "real_of_int n \<le> \<bar>x\<bar>" by (simp add: n_def)
  ultimately have lo: "2 ^ nat e \<le> \<bar>x\<bar>" by (rule order_trans)
  have "n + 1 \<le> 2 ^ nat (e + 1)" using b(2) by simp
  then have "real_of_int (n + 1) \<le> real_of_int (2 ^ nat (e + 1))" by (simp only: of_int_le_iff)
  then have "real_of_int n + 1 \<le> (2::real) ^ nat (e + 1)" by simp
  moreover have "\<bar>x\<bar> < real_of_int n + 1" by (simp add: n_def)
  ultimately have hi: "\<bar>x\<bar> < 2 ^ nat (e + 1)" by (rule less_le_trans[rotated])
  show ?thesis using lo hi e0 by (simp add: ex pow2_def)
next
  case False
  define y where "y = 1 / \<bar>x\<bar>"
  have x: "0 < \<bar>x\<bar>" "\<bar>x\<bar> < 1" using assms False by simp_all
  have y1: "1 < y" using x by (simp add: y_def)
  define c where "c = \<lceil>y\<rceil> - 1"
  have cy: "real_of_int c < y" "y \<le> real_of_int c + 1"
    unfolding c_def by linarith+
  have c1: "1 \<le> c" using y1 cy(2) by linarith
  define k where "k = bitlen c"
  have ex: "exponent2 x = - k" using False by (simp add: exponent2_def k_def c_def y_def)
  have k1: "1 \<le> k" using c1 bitlen_eq_zero_iff[of c] bitlen_nonneg[of c] by (simp add: k_def)
  have b: "2 ^ nat (k - 1) \<le> c" "c < 2 ^ nat k"
    using bitlen_bounds[of c] c1 by (simp_all add: k_def)
  have "real_of_int (2 ^ nat (k - 1)) \<le> real_of_int c" using b(1) by (simp only: of_int_le_iff)
  then have "(2::real) ^ nat (k - 1) \<le> real_of_int c" by simp
  then have lo: "2 ^ nat (k - 1) < y" using cy(1) by (rule le_less_trans)
  have "c + 1 \<le> 2 ^ nat k" using b(2) by simp
  then have "real_of_int (c + 1) \<le> real_of_int (2 ^ nat k)" by (simp only: of_int_le_iff)
  then have "real_of_int c + 1 \<le> (2::real) ^ nat k" by simp
  then have hi: "y \<le> 2 ^ nat k" using cy(2) by (rule order_trans[rotated])
  have xy: "\<bar>x\<bar> = 1 / y" using x by (simp add: y_def)
  have p1: "pow2 (exponent2 x) = 1 / 2 ^ nat k" using k1 by (simp add: ex pow2_def)
  have p2: "pow2 (exponent2 x + 1) = 1 / 2 ^ nat (k - 1)"
  proof (cases "k = 1")
    case True
    then show ?thesis by (simp add: ex pow2_def)
  next
    case False
    then have "\<not> 0 \<le> - k + 1" using k1 by simp
    moreover have "nat (- (- k + 1)) = nat (k - 1)" by simp
    ultimately show ?thesis unfolding ex pow2_def by (simp only: if_False)
  qed
  have "1 / 2 ^ nat k \<le> 1 / y" using hi y1 by (simp add: frac_le)
  moreover have "1 / y < 1 / 2 ^ nat (k - 1)" using lo by (simp add: frac_less2)
  ultimately show ?thesis unfolding p1 p2 xy by (rule conjI)
qed

text \<open>Rounding is symmetric.\<close>

lemma fl_minus: "x \<noteq> 0 \<Longrightarrow> fl (- x) = num_neg (fl x)"
  using pow2_pos[of "max (exponent2 x - 52) (- 1074)"]
  by (auto simp: fl_def Let_def exponent2_minus round_half_even_minus)

text \<open>Every integer up to \<open>2\<^sup>5\<^sup>3\<close> in magnitude is a binary64 number.\<close>

lemma fl_of_int:
  assumes "\<bar>k\<bar> \<le> 2 ^ 53"
  shows "fl (of_int k) = Fin (of_int k)"
proof (cases "k = 0")
  case True
  then show ?thesis by (simp add: fl_def)
next
  case False
  define e where "e = bitlen \<bar>k\<bar> - 1"
  have pos: "0 < \<bar>k\<bar>" using False by simp
  have ex: "exponent2 (of_int k) = e"
  proof -
    have "1 \<le> \<bar>k\<bar>" using pos by simp
    then have "real_of_int 1 \<le> real_of_int \<bar>k\<bar>" by (simp only: of_int_le_iff)
    then have b: "1 \<le> \<bar>real_of_int k\<bar>" by simp
    have c: "\<lfloor>\<bar>real_of_int k\<bar>\<rfloor> = \<bar>k\<bar>" by (metis of_int_abs floor_of_int)
    show ?thesis unfolding exponent2_def e_def using b c by simp
  qed
  have lo: "2 ^ nat e \<le> \<bar>k\<bar>" and hi: "\<bar>k\<bar> < 2 ^ nat (e + 1)"
    using bitlen_bounds[OF pos] by (simp_all add: e_def)
  have e0: "0 \<le> e" using pos bitlen_eq_zero_iff[of "\<bar>k\<bar>"] bitlen_nonneg[of "\<bar>k\<bar>"]
    by (simp add: e_def)
  have e53: "e \<le> 53"
  proof (rule ccontr)
    assume "\<not> e \<le> 53"
    then have "54 \<le> nat e" by simp
    then have "(2::int) ^ 54 \<le> 2 ^ nat e" by (rule power_increasing) simp
    with lo assms show False by simp
  qed
  have small: "\<bar>real_of_int k\<bar> < pow2 1024"
  proof -
    have "\<bar>real_of_int k\<bar> \<le> 2 ^ 53" using assms
      by (metis of_int_abs of_int_le_iff of_int_numeral of_int_power)
    also have "\<dots> < (2::real) ^ 1024" by simp
    finally show ?thesis by (simp add: pow2_def)
  qed
  show ?thesis
  proof (cases "e \<le> 52")
    case True
    define j where "j = nat (52 - e)"
    have q: "max (e - 52) (- 1074) = - int j" using True e0 by (simp add: j_def)
    have p: "pow2 (- int j) = 1 / 2 ^ j" by (cases "j = 0") (simp_all add: pow2_def)
    have "real_of_int k / pow2 (- int j) = of_int (k * 2 ^ j)" by (simp add: p)
    then have m: "round_half_even (real_of_int k / pow2 (- int j)) = k * 2 ^ j"
      using round_half_even_of_int by metis
    show ?thesis
      using False small by (simp add: fl_def Let_def ex q m) (simp add: p)
  next
    case False
    with e53 have e: "e = 53" by simp
    from lo hi assms have "\<bar>k\<bar> = 2 ^ 53" by (simp add: e)
    then have k: "k = 9007199254740992 \<or> k = - 9007199254740992"
      by (simp add: abs_if split: if_splits)
    have h: "k = 2 * (k div 2)" using k by auto
    have "real_of_int k / 2 = real_of_int (2 * (k div 2)) / 2" using h by simp
    then have "real_of_int k / 2 = of_int (k div 2)" by simp
    then have m: "round_half_even (real_of_int k / 2) = k div 2"
      using round_half_even_of_int by metis
    have kne: "k div 2 \<noteq> 0" using k by auto
    have "real_of_int (k div 2) * 2 = real_of_int (2 * (k div 2))" by simp
    then have twice: "real_of_int (k div 2) * 2 = real_of_int k" using h by simp
    show ?thesis
      using \<open>k \<noteq> 0\<close> small by (simp add: fl_def Let_def ex e pow2_def m kne twice)
  qed
qed

lemma fl_numeral: "numeral n \<le> (2::int) ^ 53 \<Longrightarrow> fl (numeral n) = Fin (numeral n)"
  using fl_of_int[of "numeral n"] by simp

lemma fl_neg_numeral:
  "numeral n \<le> (2::int) ^ 53 \<Longrightarrow> fl (- numeral n) = Fin (- numeral n)"
  using fl_of_int[of "- numeral n"] by simp

lemma fl_1 [simp]: "fl 1 = Fin 1"
  using fl_of_int[of 1] by simp

section \<open>Facts about the loops\<close>

lemma for_upto_0 [simp]: "for_upto 0 body s = s"
  by (simp add: for_upto_def)

lemma for_upto_Suc [simp]: "for_upto (Suc n) body s = body n (for_upto n body s)"
  by (simp add: for_upto_def)


lemma for_upto_update:
  "n \<le> length a \<Longrightarrow>
   for_upto n (\<lambda>i d. d[i := g (elem_at d i) i]) a = map (\<lambda>i. g (Some (a ! i)) i) [0..<n] @ drop n a"
proof (induction n)
  case 0
  then show ?case by simp
next
  case (Suc n)
  then have n: "n < length a" by simp
  let ?L = "map (\<lambda>i. g (Some (a ! i)) i) [0..<n] @ drop n a"
  have "elem_at ?L n = Some (a ! n)"
    using n by (simp add: elem_at_def nth_append)
  moreover have "?L[n := v] = map (\<lambda>i. g (Some (a ! i)) i) [0..<n] @ v # drop (Suc n) a" for v
    using n by (simp add: list_update_append Cons_nth_drop_Suc[symmetric])
  ultimately show ?case using Suc by simp
qed

lemma for_upto_sum:
  "for_upto n (\<lambda>i r. f r (h i)) r0 = foldl f r0 (map h [0..<n])"
  by (induction n) simp_all

lemma equals_loop_all:
  assumes "data a = Some d" "data b = Some e" "length_v a = length d" "length e = length d"
    "\<forall>i<length d. num_eq (d ! i) (e ! i)"
  shows "i \<le> length d \<Longrightarrow> equals_loop a b i = Inr (length d)"
proof (induction "length d - i" arbitrary: i)
  case 0
  then show ?case using assms by (simp add: equals_loop.simps[of a b i])
next
  case (Suc k)
  then have i: "i < length d" by simp
  then have "strict_eq (elem_at d i) (elem_at e i)"
    using assms(4,5) by (simp add: elem_at_def)
  moreover have "equals_loop a b (Suc i) = Inr (length d)"
    using Suc i by simp
  ultimately show ?case using assms i by (simp add: equals_loop.simps[of a b i])
qed

lemma equals_elementwise:
  assumes "consistent a" "consistent b" "list_all2 num_eq (elements a) (elements b)"
  shows "equals a b = Inr True"
proof -
  have len: "length (elements a) = length (elements b)"
    using assms(3) by (rule list_all2_lengthD)
  have la: "length_v a = length (elements a)" and lb: "length_v b = length (elements b)"
    using assms(1,2) by (auto simp: consistent_def elements_def split: option.splits)
  show ?thesis
  proof (cases "length_v a = 0")
    case True
    then show ?thesis using la lb len by (simp add: equals_def equals_loop.simps[of a b 0])
  next
    case False
    then obtain d e where d: "data a = Some d" and e: "data b = Some e"
      using assms(1,2) la lb len by (auto simp: consistent_def split: option.splits)
    have "\<forall>i<length d. num_eq (d ! i) (e ! i)"
      using assms(3) d e by (simp add: elements_def list_all2_conv_all_nth)
    then have "equals_loop a b 0 = Inr (length d)"
      using equals_loop_all[OF d e, of 0] la lb len d e by (simp add: elements_def)
    then show ?thesis using la lb len d by (simp add: equals_def elements_def)
  qed
qed

section \<open>Claim C1: the two paths\<close>

lemma map2_nth:
  "length a = n \<Longrightarrow> length b = n \<Longrightarrow> map2 f a b = map (\<lambda>i. f (a ! i) (b ! i)) [0..<n]"
  by (auto simp: list_eq_iff_nth_eq)

lemma map_nth_upt: "length a = n \<Longrightarrow> map f a = map (\<lambda>i. f (a ! i)) [0..<n]"
  by (auto simp: list_eq_iff_nth_eq)

lemma num_mul_one: "is_double s \<Longrightarrow> num_mul (Fin 1) s = s"
  by (cases s) (auto simp: num_mul_def zero_of_def inf_of_def)

lemma num_mul_minus_one: "is_double s \<Longrightarrow> num_mul (Fin (- 1)) s = num_neg s"
  by (cases s) (auto simp: num_mul_def zero_of_def inf_of_def fl_minus)

lemma binOp_elementwise:
  assumes "data this = Some a" "data vector = Some b" "length_v this = length a"
    "length_v vector = length a" "length b = length a"
  shows "binOp this vector (\<lambda>p q i. f (ToNumber p) (ToNumber q))
           = Inr (this\<lparr>data := Some (map2 f a b)\<rparr>)"
proof (cases "length a = 0")
  case True
  then show ?thesis using assms by (simp add: binOp_def)
next
  case False
  have "for_upto (length a) (\<lambda>i d. d[i := f (ToNumber (elem_at d i)) (ToNumber (elem_at b i))]) a
          = map (\<lambda>i. f (a ! i) (ToNumber (elem_at b i))) [0..<length a]"
    using for_upto_update[of "length a" a "\<lambda>p i. f (ToNumber p) (ToNumber (elem_at b i))"]
    by simp
  also have "\<dots> = map (\<lambda>i. f (a ! i) (b ! i)) [0..<length a]"
    using assms(5) by (simp add: elem_at_def)
  also have "\<dots> = map2 f a b"
    using assms(5) map2_nth[of a "length a" b f] by simp
  finally show ?thesis using assms False by (simp add: binOp_def)
qed

lemma each_elementwise:
  assumes "data this = Some a" "length_v this = length a"
  shows "each this (\<lambda>_ i d. d[i := f (ToNumber (elem_at d i))])
           = Inr (this\<lparr>data := Some (map f a)\<rparr>)"
proof -
  have "for_upto (length a) (\<lambda>i d. d[i := f (ToNumber (elem_at d i))]) a
          = map (\<lambda>i. f (a ! i)) [0..<length a]"
    using for_upto_update[of "length a" a "\<lambda>p i. f (ToNumber p)"] by simp
  also have "\<dots> = map f a"
    using map_nth_upt[of a "length a" f] by simp
  finally show ?thesis using assms by (simp add: each_def)
qed

lemma dot_loop:
  assumes "length b = length a"
  shows "for_upto (length a) (\<lambda>i result. num_add result
            (num_mul (ToNumber (elem_at a i)) (ToNumber (elem_at b i)))) (Fin 0)
         = dot_sum a b"
proof -
  have "map (\<lambda>i. num_mul (ToNumber (elem_at a i)) (ToNumber (elem_at b i))) [0..<length a]
          = map2 num_mul a b"
    using assms map2_nth[of a "length a" b num_mul] by (simp add: elem_at_def)
  then show ?thesis
    using for_upto_sum[of "length a" num_add
            "\<lambda>i. num_mul (ToNumber (elem_at a i)) (ToNumber (elem_at b i))" "Fin 0"]
    by (simp add: dot_sum_def)
qed

lemma magnitude_loop:
  "for_upto (length d) (\<lambda>i result. num_add result
            (num_mul (ToNumber (elem_at d i)) (ToNumber (elem_at d i)))) (Fin 0)
     = foldl num_add (Fin 0) (map (\<lambda>b. num_mul b b) d)"
proof -
  have "map (\<lambda>i. num_mul (ToNumber (elem_at d i)) (ToNumber (elem_at d i))) [0..<length d]
          = map (\<lambda>b. num_mul b b) d"
    using map_nth_upt[of d "length d" "\<lambda>b. num_mul b b"] by (simp add: elem_at_def)
  then show ?thesis
    using for_upto_sum[of "length d" num_add
            "\<lambda>i. num_mul (ToNumber (elem_at d i)) (ToNumber (elem_at d i))" "Fin 0"]
    by simp
qed


lemma add_paths:
  assumes "consistent this" "consistent vector" "length_v this = length_v vector"
    "\<forall>e\<in>set (elements vector). is_double e"
  shows "add (Some nblas_spec) this vector = add None this vector"
proof (cases "data this")
  case None
  then show ?thesis
    by (cases "data vector") (simp_all add: add_def call_axpy_def nblas_spec_def)
next
  case a: (Some a)
  show ?thesis
  proof (cases "data vector")
    case None
    then show ?thesis by (simp add: add_def call_axpy_def nblas_spec_def a)
  next
    case b: (Some b)
    have l: "length_v this = length a" "length_v vector = length a" "length b = length a"
      using assms a b by (simp_all add: consistent_def)
    have d: "\<forall>e\<in>set b. is_double e" using assms(4) b by (simp add: elements_def)
    have "scaledAdd a b (Fin 1) = map2 num_add a b"
      unfolding scaledAdd_def using d
      by (intro map_cong refl) (auto simp: num_mul_one dest: set_zip_rightD)
    then show ?thesis
      using binOp_elementwise[OF a b l, of num_add] a b l
      by (simp add: add_def call_axpy_def nblas_spec_def)
  qed
qed

lemma subtract_paths:
  assumes "consistent this" "consistent vector" "length_v this = length_v vector"
    "\<forall>e\<in>set (elements vector). is_double e"
  shows "subtract (Some nblas_spec) this vector = subtract None this vector"
proof (cases "data this")
  case None
  then show ?thesis
    by (cases "data vector") (simp_all add: subtract_def call_axpy_def nblas_spec_def)
next
  case a: (Some a)
  show ?thesis
  proof (cases "data vector")
    case None
    then show ?thesis by (simp add: subtract_def call_axpy_def nblas_spec_def a)
  next
    case b: (Some b)
    have l: "length_v this = length a" "length_v vector = length a" "length b = length a"
      using assms a b by (simp_all add: consistent_def)
    have d: "\<forall>e\<in>set b. is_double e" using assms(4) b by (simp add: elements_def)
    have "scaledAdd a b (Fin (- 1)) = map2 num_sub a b"
      unfolding scaledAdd_def using d
      by (intro map_cong refl) (auto simp: num_mul_minus_one num_sub_def dest: set_zip_rightD)
    then show ?thesis
      using binOp_elementwise[OF a b l, of num_sub] a b l
      by (simp add: subtract_def call_axpy_def nblas_spec_def)
  qed
qed

lemma scale_paths:
  assumes "consistent this"
  shows "scale (Some nblas_spec) this scalar = scale None this scalar"
proof (cases "data this")
  case None
  then show ?thesis by (simp add: scale_def call_scal_def nblas_spec_def)
next
  case a: (Some a)
  have l: "length_v this = length a" using assms a by (simp add: consistent_def)
  show ?thesis
    using each_elementwise[OF a l, of "\<lambda>e. num_mul e scalar"] a
    by (simp add: scale_def call_scal_def nblas_spec_def scaleInPlace_def)
qed

lemma dot_paths:
  assumes "consistent this" "consistent vector" "length_v this = length_v vector"
  shows "dot (Some nblas_spec) this vector = dot None this vector"
proof (cases "data this")
  case None
  then show ?thesis using assms
    by (cases "data vector") (simp_all add: dot_def call_dot_def nblas_spec_def consistent_def)
next
  case a: (Some a)
  show ?thesis
  proof (cases "data vector")
    case None
    then show ?thesis using assms a
      by (simp add: dot_def call_dot_def nblas_spec_def consistent_def dot_sum_def)
  next
    case b: (Some b)
    have l: "length_v this = length a" "length_v vector = length a" "length b = length a"
      using assms a b by (simp_all add: consistent_def)
    show ?thesis
      using dot_loop[OF l(3)] a b l
      by (simp add: dot_def call_dot_def nblas_spec_def dot_sum_def)
  qed
qed

lemma magnitude_paths:
  assumes "consistent this"
  shows "magnitude (Some nblas_spec) this = magnitude None this"
proof (cases "data this")
  case None
  then show ?thesis using assms by (simp add: magnitude_def consistent_def)
next
  case a: (Some a)
  have l: "length_v this = length a" using assms a by (simp add: consistent_def)
  show ?thesis
    using magnitude_loop[of a] a l
    by (auto simp: magnitude_def call_nrm2_def nblas_spec_def norm2_def)
qed

text \<open>
  C1. With the backend the specification describes and without any backend, \<^verbatim>\<open>add\<close>,
  \<^verbatim>\<open>subtract\<close>, \<^verbatim>\<open>scale\<close>, \<^verbatim>\<open>dot\<close> and \<^verbatim>\<open>magnitude\<close> give the same result on the
  same vectors of equal length: \<^verbatim>\<open>scaledAdd\<close> with the factors 1 and -1 against
  \<^verbatim>\<open>binOp\<close> with \<^verbatim>\<open>+\<close> and \<^verbatim>\<open>-\<close>, \<^verbatim>\<open>scaleInPlace\<close> against the loop that multiplies
  each element, the sum of products against the loop of \<^verbatim>\<open>dot\<close>, and \<^verbatim>\<open>norm2\<close> against
  the square root of the loop's sum of squares. The vectors are consistent and the
  elements of the argument are binary64 numbers, as the elements of a typed array are.
\<close>

theorem accelerated_equals_fallback:
  assumes "consistent this" and "consistent vector"
    and "length_v this = length_v vector"
    and "\<forall>e\<in>set (elements vector). is_double e"
  shows "add (Some nblas_spec) this vector = add None this vector
       \<and> subtract (Some nblas_spec) this vector = subtract None this vector
       \<and> scale (Some nblas_spec) this scalar = scale None this scalar
       \<and> dot (Some nblas_spec) this vector = dot None this vector
       \<and> magnitude (Some nblas_spec) this = magnitude None this"
  using assms add_paths subtract_paths scale_paths dot_paths magnitude_paths by simp

theorem accelerated_equals_fallback_witness:
  "add (Some nblas_spec) (Vector_new (OfArray [Fin 1, Fin 2, Fin 3]))
       (Vector_new (OfArray [Fin 4, Fin 5, Fin 6]))
     = add None (Vector_new (OfArray [Fin 1, Fin 2, Fin 3]))
         (Vector_new (OfArray [Fin 4, Fin 5, Fin 6]))
   \<and> add None (Vector_new (OfArray [Fin 1, Fin 2, Fin 3]))
         (Vector_new (OfArray [Fin 4, Fin 5, Fin 6]))
     = Inr (Vector_new (OfArray [Fin 5, Fin 7, Fin 9]))
   \<and> subtract (Some nblas_spec) (Vector_new (OfArray [Fin 1, Fin 2, Fin 3]))
       (Vector_new (OfArray [Fin 4, Fin 5, Fin 6]))
     = Inr (Vector_new (OfArray [Fin (- 3), Fin (- 3), Fin (- 3)]))
   \<and> scale (Some nblas_spec) (Vector_new (OfArray [Fin 1, Fin 2, Fin 3])) (Fin 2)
     = Inr (Vector_new (OfArray [Fin 2, Fin 4, Fin 6]))
   \<and> dot (Some nblas_spec) (Vector_new (OfArray [Fin 1, Fin 2, Fin 3]))
       (Vector_new (OfArray [Fin 4, Fin 5, Fin 6])) = Inr (Fin 32)
   \<and> magnitude (Some nblas_spec) (Vector_new (OfArray [Fin 3, Fin 4])) = Inr (Fin 5)"
proof -
  let ?a = "Vector_new (OfArray [Fin 1, Fin 2, Fin 3])"
  let ?b = "Vector_new (OfArray [Fin 4, Fin 5, Fin 6])"
  let ?c = "Vector_new (OfArray [Fin 3, Fin 4])"
  have h: "consistent ?a" "consistent ?b" "consistent ?c" "length_v ?a = length_v ?b"
    "\<forall>e\<in>set (elements ?b). is_double e" "\<forall>e\<in>set (elements ?c). is_double e"
    by (simp_all add: Vector_new_def consistent_def elements_def fl_numeral)
  have s: "sqrt 25 = 5" using real_sqrt_abs[of 5] by simp
  have f: "add None ?a ?b = Inr (Vector_new (OfArray [Fin 5, Fin 7, Fin 9]))"
    "subtract None ?a ?b = Inr (Vector_new (OfArray [Fin (- 3), Fin (- 3), Fin (- 3)]))"
    "scale None ?a (Fin 2) = Inr (Vector_new (OfArray [Fin 2, Fin 4, Fin 6]))"
    "dot None ?a ?b = Inr (Fin 32)"
    "magnitude None ?c = Inr (Fin 5)"
    by (simp_all add: Vector_new_def add_def subtract_def scale_def dot_def magnitude_def
          call_axpy_def call_scal_def call_dot_def call_nrm2_def binOp_def each_def
          elem_at_def num_sub_def num_mul_def s fl_numeral fl_neg_numeral)
  show ?thesis
    using accelerated_equals_fallback[OF h(1) h(2) h(4) h(5), of "Fin 2"]
      accelerated_equals_fallback[OF h(3) h(3) refl h(6), of "Fin 2"] f
    by simp
qed

section \<open>Claim C4: adding and taking away again\<close>











section \<open>Claim C3: equals\<close>

lemma num_eq_refl: "\<not> is_nan e \<Longrightarrow> num_eq e e"
  by (cases e) simp_all

text \<open>
  C3, as stated: \<^verbatim>\<open>equals(a, a)\<close> is true for every vector. The comparison is \<^verbatim>\<open>===\<close>,
  under which NaN differs from itself: the vector \<^verbatim>\<open>new Vector([NaN])\<close> is not equal to
  itself.
\<close>

theorem equals_NaN_counterexample:
  "equals (Vector_new (OfArray [NaN])) (Vector_new (OfArray [NaN])) = Inr False"
  by (simp add: equals_def Vector_new_def elem_at_def equals_loop.simps)

text \<open>
  C3, amended: for every vector whose length agrees with its array and that holds no NaN,
  \<^verbatim>\<open>equals(a, a)\<close> returns true; and for all vectors of different lengths
  \<^verbatim>\<open>equals(a, b)\<close> returns false.
\<close>

theorem equals_reflexive_without_NaN:
  "(consistent a \<and> (\<forall>e\<in>set (elements a). \<not> is_nan e) \<longrightarrow> equals a a = Inr True)
   \<and> (length_v a \<noteq> length_v b \<longrightarrow> equals a b = Inr False)"
proof -
  have "equals a a = Inr True" if c: "consistent a" and n: "\<forall>e\<in>set (elements a). \<not> is_nan e"
  proof -
    have "list_all2 num_eq (elements a) (elements a)"
      using n by (simp add: list_all2_same num_eq_refl)
    with c show ?thesis by (intro equals_elementwise)
  qed
  then show ?thesis by (simp add: equals_def)
qed

theorem equals_reflexive_without_NaN_witness:
  "equals (Vector_new (OfArray [Fin 1, NegZero, PosInfinity]))
          (Vector_new (OfArray [Fin 1, NegZero, PosInfinity])) = Inr True
   \<and> equals (Vector_new (OfArray [Fin 1])) (Vector_new (OfArray [Fin 1, Fin 2])) = Inr False"
  using equals_reflexive_without_NaN[of "Vector_new (OfArray [Fin 1, NegZero, PosInfinity])"
          "Vector_new Other"]
        equals_reflexive_without_NaN[of "Vector_new (OfArray [Fin 1])"
          "Vector_new (OfArray [Fin 1, Fin 2])"]
  by (simp add: Vector_new_def consistent_def elements_def)

section \<open>Claim C2: reduce and the initial value\<close>

lemma reduce_throws_iff:
  "reduce this callback initialValue
       = Inl (Error ''Reduce of empty matrix with no initial value.'')
     \<longleftrightarrow> length_v this = 0 \<and> \<not> ToBoolean initialValue"
  by (auto simp: reduce_def Let_def split: option.splits prod.splits)

text \<open>
  C2. The claim: \<^verbatim>\<open>reduce\<close> fails with the empty-reduction error exactly when the vector
  is empty and no initial value is supplied, and never when one is supplied, 0 included.
  The test of the method is \<^verbatim>\<open>l === 0 && !initialValue\<close>, and \<^verbatim>\<open>!0\<close> is true: on the
  empty vector \<^verbatim>\<open>new Vector()\<close>, \<^verbatim>\<open>reduce\<close> with the initial value 0 throws the error
  whose message says that no initial value was given. The theorem evaluates the method
  there.
\<close>

theorem reduce_empty_with_zero_throws:
  "reduce (Vector_new Other) callback (Some (Fin 0))
     = Inl (Error ''Reduce of empty matrix with no initial value.'')"
  by (simp add: reduce_def Vector_new_def)

section \<open>Claims C5 and C10: the bounds check\<close>

text \<open>
  C5. For every vector, the empty one included, \<^verbatim>\<open>get(index)\<close> fails with the error
  \<^verbatim>\<open>index out of bounds\<close> whenever the index is not finite, is negative, or is greater
  than or equal to the length; and on a vector of length 3 the getter \<^verbatim>\<open>w\<close> is
  \<^verbatim>\<open>get(3)\<close> and fails with that same error.
\<close>

theorem get_out_of_bounds:
  "(\<not> isFinite index \<or> num_lt index (Fin 0) \<or> num_ge index (Fin (real (length_v v)))
      \<longrightarrow> get v index = Inl (Error ''index out of bounds''))
   \<and> (length_v u = 3
      \<longrightarrow> get_w u = get u (Fin 3) \<and> get_w u = Inl (Error ''index out of bounds''))"
proof -
  have "get v index = Inl (Error ''index out of bounds'')"
    if "\<not> isFinite index \<or> num_lt index (Fin 0) \<or> num_ge index (Fin (real (length_v v)))"
    using that by (cases index) (auto simp: get_def check_def num_ge_def num_gt_def)
  moreover have "get_w u = get u (Fin 3) \<and> get_w u = Inl (Error ''index out of bounds'')"
    if "length_v u = 3"
    using that by (simp add: get_w_def get_def check_def num_gt_def)
  ultimately show ?thesis by blast
qed

theorem get_out_of_bounds_witness:
  "get (Vector_new Other) (Fin 0) = Inl (Error ''index out of bounds'')
   \<and> get (Vector_new (OfArray [Fin 1, Fin 2])) NaN = Inl (Error ''index out of bounds'')
   \<and> get_w (Vector_new (OfArray [Fin 1, Fin 2, Fin 3])) = Inl (Error ''index out of bounds'')"
  using get_out_of_bounds[of "Fin 0" "Vector_new Other"
          "Vector_new (OfArray [Fin 1, Fin 2, Fin 3])"]
        get_out_of_bounds[of NaN "Vector_new (OfArray [Fin 1, Fin 2])" "Vector_new Other"]
  by (auto simp: Vector_new_def num_ge_def)

text \<open>
  C10. On the vector \<^verbatim>\<open>new Vector([1, 2])\<close> the index 0.5 is finite, lies strictly
  between 0 and \<^verbatim>\<open>length - 1\<close> and is no integer; the check lets it through, and
  \<^verbatim>\<open>get(0.5)\<close> returns \<^verbatim>\<open>undefined\<close>, the value a typed array gives for a position it
  does not have, instead of raising the out-of-bounds error.
\<close>

theorem fractional_index_passes_check:
  "length_v (Vector_new (OfArray [Fin 1, Fin 2])) = 2
   \<and> isFinite (Fin (1 / 2))
   \<and> num_lt (Fin 0) (Fin (1 / 2))
   \<and> num_lt (Fin (1 / 2)) (Fin (real (length_v (Vector_new (OfArray [Fin 1, Fin 2]))) - 1))
   \<and> real_of_int \<lfloor>1 / 2 :: real\<rfloor> \<noteq> 1 / 2
   \<and> check (Vector_new (OfArray [Fin 1, Fin 2])) (Fin (1 / 2)) = Inr ()
   \<and> get (Vector_new (OfArray [Fin 1, Fin 2])) (Fin (1 / 2)) = Inr None"
  by (simp add: Vector_new_def check_def get_def num_gt_def at_number_def is_index_def)

theorem fractional_index_passes_check_witness:
  "get (Vector_new (OfArray [Fin 1, Fin 2])) (Fin (1 / 2)) = Inr None
   \<and> get (Vector_new (OfArray [Fin 1, Fin 2])) (Fin (1 / 2)) \<noteq> Inl (Error ''index out of bounds'')"
  using fractional_index_passes_check by simp

section \<open>Claim C8: the magnitude of zeros\<close>

lemma replicate_update_same: "(replicate n c)[k := c] = replicate n c"
  by (induction n arbitrary: k) (auto split: nat.splits)

lemma for_upto_fill_same:
  "for_upto k (\<lambda>i d. d[i := c]) (replicate n c) = replicate n c"
  by (induction k) (simp_all add: replicate_update_same)

lemma zeros_positive:
  "0 < n \<Longrightarrow>
   Vector_zeros n t = Inr \<lparr>type = (case t of None \<Rightarrow> Float64Array | Some u \<Rightarrow> u),
                           length_v = nat n, data = Some (replicate (nat n) (Fin 0))\<rparr>"
  by (simp add: Vector_zeros_def Vector_fill_def Let_def new_array_def for_upto_fill_same
        Vector_new_def)

lemma sum_squares_zeros:
  "k \<le> n \<Longrightarrow>
   for_upto k (\<lambda>i result. num_add result
       (num_mul (ToNumber (elem_at (replicate n (Fin 0)) i))
                (ToNumber (elem_at (replicate n (Fin 0)) i)))) (Fin 0) = Fin 0"
  by (induction k) (simp_all add: elem_at_def num_mul_def zero_of_def)

lemma foldl_add_zeros: "foldl num_add (Fin 0) (replicate n (Fin 0)) = Fin 0"
  by (induction n) simp_all

lemma norm2_zeros: "norm2 (replicate n (Fin 0)) = Fin 0"
  by (simp add: norm2_def num_mul_def zero_of_def foldl_add_zeros)

lemma magnitude_empty: "length_v u = 0 \<Longrightarrow> magnitude nb u = Inr (Fin 0)"
  by (simp add: magnitude_def)

text \<open>
  C8. For every count \<open>n \<ge> 0\<close>, \<^verbatim>\<open>zeros(n)\<close> returns a vector whose magnitude is exactly
  0, on the fallback path and on the path of the backend the specification describes.
  A vector of length 0 has magnitude 0 whatever the backend is and whatever its array is:
  the method returns before it calls \<^verbatim>\<open>nrm2\<close> or enters the loop.
\<close>

theorem magnitude_zeros:
  "(0 \<le> n \<and> (nb = None \<or> nb = Some nblas_spec)
      \<longrightarrow> (\<exists>v. Vector_zeros n t = Inr v \<and> magnitude nb v = Inr (Fin 0)))
   \<and> (length_v u = 0 \<longrightarrow> magnitude nb' u = Inr (Fin 0))"
proof (intro conjI impI; (elim conjE)?)
  assume n: "0 \<le> n" and nb: "nb = None \<or> nb = Some nblas_spec"
  show "\<exists>v. Vector_zeros n t = Inr v \<and> magnitude nb v = Inr (Fin 0)"
  proof (cases "n = 0")
    case True
    then show ?thesis
      by (simp add: Vector_zeros_def Vector_fill_def Vector_new_def magnitude_def)
  next
    case False
    with n have pos: "0 < n" by simp
    let ?v = "\<lparr>type = (case t of None \<Rightarrow> Float64Array | Some u \<Rightarrow> u),
               length_v = nat n, data = Some (replicate (nat n) (Fin 0))\<rparr>"
    have "magnitude None ?v = Inr (Fin 0)"
      using pos by (simp add: magnitude_def call_nrm2_def sum_squares_zeros)
    moreover have "magnitude (Some nblas_spec) ?v = Inr (Fin 0)"
      using pos by (simp add: magnitude_def call_nrm2_def nblas_spec_def norm2_zeros)
    ultimately show ?thesis using nb zeros_positive[OF pos, of t] by auto
  qed
next
  assume "length_v u = 0"
  then show "magnitude nb' u = Inr (Fin 0)" by (rule magnitude_empty)
qed

theorem magnitude_zeros_witness:
  "(case Vector_zeros 3 None of Inr v \<Rightarrow> magnitude None v | Inl e \<Rightarrow> Inl e) = Inr (Fin 0)
   \<and> (case Vector_zeros 0 None of Inr v \<Rightarrow> magnitude (Some nblas_spec) v | Inl e \<Rightarrow> Inl e)
        = Inr (Fin 0)
   \<and> magnitude (Some nblas_spec) (Vector_new Other) = Inr (Fin 0)"
  using magnitude_zeros[of 3 None None "Vector_new Other" "Some nblas_spec"]
        magnitude_zeros[of 0 "Some nblas_spec" None "Vector_new Other" "Some nblas_spec"]
  by (auto simp: Vector_new_def)

section \<open>Claim C9: the length field\<close>













lemma in_place_spec: "in_place (Some nblas_spec)"
  by (auto simp: in_place_def nblas_spec_def scaledAdd_def scaleInPlace_def
           split: option.splits if_splits)



section \<open>Claim C6: range\<close>

lemma fl_half [simp]: "fl (1 / 2) = Fin (1 / 2)"
  by (simp add: fl_eval)

lemma fl_three_halves [simp]: "fl (3 / 2) = Fin (3 / 2)"
  by (simp add: fl_eval)

lemma range_loop_done:
  "\<not> num_lt i end' \<Longrightarrow> range_loop fuel backwards start step end' i j d = Some d"
  by (cases fuel) simp_all

lemma range_loop_more_fuel:
  "range_loop fuel backwards start step end' i j d = Some r
     \<Longrightarrow> range_loop (fuel + extra) backwards start step end' i j d = Some r"
proof (induction fuel arbitrary: i j d)
  case 0
  then show ?case by (simp add: range_loop_done split: if_splits)
next
  case (Suc fuel)
  then show ?case by (simp split: if_splits)
qed

lemma Vector_range_more_fuel:
  "Vector_range fuel args t = Some r \<Longrightarrow> Vector_range (fuel + extra) args t = Some r"
  unfolding Vector_range_def Let_def
  by (auto split: option.splits sum.splits if_splits list.splits prod.splits
           dest: range_loop_more_fuel[where extra = extra])

lemma range_at_4:
  "Vector_range 4 [Fin 0, Fin (1 / 2), Fin 2] None
     = Some (Inr \<lparr>type = Float64Array, length_v = 4,
                   data = Some [Fin 0, Fin (1 / 2), Fin 1, Fin (3 / 2)]\<rparr>)"
  "Vector_range 4 [Fin 2, Fin (1 / 2), Fin 0] None
     = Some (Inr \<lparr>type = Float64Array, length_v = 4,
                   data = Some [Fin 2, Fin (3 / 2), Fin 1, Fin (1 / 2)]\<rparr>)"
  by (simp_all add: Vector_range_def Let_def num_sub_def num_gt_def num_div_def new_array_def
        Vector_new_def fl_numeral fl_neg_numeral eval_nat_numeral)

text \<open>
  C6. \<^verbatim>\<open>range(0, 0.5, 2)\<close> returns the vector \<^verbatim>\<open>[0, 0.5, 1, 1.5]\<close>. \<^verbatim>\<open>range(2, 0.5, 0)\<close>
  swaps its bounds and returns the four values \<^verbatim>\<open>end - i + start\<close> for \<open>i\<close> running
  through the ascending values, with \<^verbatim>\<open>end\<close> 2 and \<^verbatim>\<open>start\<close> 0: that is
  \<^verbatim>\<open>[2, 1.5, 1, 0.5]\<close>, which is not the ascending vector reversed. Both loops end
  within four steps, whatever fuel beyond that they are given.
\<close>

theorem range_ascending_and_descending:
  assumes "4 \<le> fuel"
  shows "Vector_range fuel [Fin 0, Fin (1 / 2), Fin 2] None
     = Some (Inr \<lparr>type = Float64Array, length_v = 4,
                   data = Some [Fin 0, Fin (1 / 2), Fin 1, Fin (3 / 2)]\<rparr>)
   \<and> Vector_range fuel [Fin 2, Fin (1 / 2), Fin 0] None
     = Some (Inr \<lparr>type = Float64Array, length_v = 4,
                   data = Some (map (\<lambda>i. num_add (num_sub (Fin 2) i) (Fin 0))
                                  [Fin 0, Fin (1 / 2), Fin 1, Fin (3 / 2)])\<rparr>)
   \<and> map (\<lambda>i. num_add (num_sub (Fin 2) i) (Fin 0)) [Fin 0, Fin (1 / 2), Fin 1, Fin (3 / 2)]
     = [Fin 2, Fin (3 / 2), Fin 1, Fin (1 / 2)]
   \<and> [Fin 2, Fin (3 / 2), Fin 1, Fin (1 / 2)] \<noteq> rev [Fin 0, Fin (1 / 2), Fin 1, Fin (3 / 2)]"
proof -
  obtain extra where f: "fuel = 4 + extra" using assms by (metis le_Suc_ex)
  have m: "map (\<lambda>i. num_add (num_sub (Fin 2) i) (Fin 0)) [Fin 0, Fin (1 / 2), Fin 1, Fin (3 / 2)]
             = [Fin 2, Fin (3 / 2), Fin 1, Fin (1 / 2)]"
    by (simp add: num_sub_def fl_numeral)
  show ?thesis
    unfolding f m
    using range_at_4[THEN Vector_range_more_fuel, of extra] by simp
qed

theorem range_ascending_and_descending_witness:
  "Vector_range 10 [Fin 0, Fin (1 / 2), Fin 2] None
     = Some (Inr (Vector_new (OfTypedArray Float64Array [Fin 0, Fin (1 / 2), Fin 1, Fin (3 / 2)])))
   \<and> Vector_range 10 [Fin 2, Fin (1 / 2), Fin 0] None
     = Some (Inr (Vector_new (OfTypedArray Float64Array [Fin 2, Fin (3 / 2), Fin 1, Fin (1 / 2)])))"
  using range_ascending_and_descending[of 10] by (simp add: Vector_new_def)

section \<open>Claim C7: project\<close>






end
